theory Spec2Isabelle
  imports Main "HOL-Library.Word"
begin

section \<open>Endpoints\<close>

text \<open>
  The endpoint structure of the library (\<^verbatim>\<open>aedis/endpoint.hpp\<close>), with the fields that
  \<^verbatim>\<open>impl/endpoint.ipp\<close> reads and prints: host, port, username, password, and the role.
\<close>

record endpoint =
  host :: string
  port :: string
  role :: string
  username :: string
  password :: string

text \<open>\<^verbatim>\<open>return !std::empty(ep.host) && !std::empty(ep.port);\<close>\<close>

definition is_valid :: "endpoint \<Rightarrow> bool" where
  "is_valid ep = (host ep \<noteq> [] \<and> port ep \<noteq> [])"

text \<open>\<^verbatim>\<open>return !std::empty(ep.username) && !std::empty(ep.password);\<close>\<close>

definition requires_auth :: "endpoint \<Rightarrow> bool" where
  "requires_auth ep = (username ep \<noteq> [] \<and> password ep \<noteq> [])"

section \<open>RESP3 types, nodes and error codes\<close>

text \<open>
  The element kinds of \<^verbatim>\<open>resp3::type\<close>; \<open>invalid\<close> is the value that stands for
  "no type". The constructors of set, map and null carry a suffix, the others the names
  of the enumeration.
\<close>

datatype type =
    array | push | set_type | map_type | attribute
  | simple_string | simple_error | number | doublean | boolean | big_number | null_type
  | blob_error | verbatim_string | blob_string | streamed_string_part
  | invalid

text \<open>
  \<^verbatim>\<open>resp3::node\<close>: the element handed to a response adapter, with the kind, the
  aggregate size, the depth and the payload.
\<close>

record node =
  data_type :: type
  aggregate_size :: nat
  depth :: nat
  "value" :: string

text \<open>
  The error codes that the modelled operations produce or forward: those of
  \<^verbatim>\<open>aedis::error\<close> named in the sources and in the error table, and the two of Asio that
  the operations complete with (\<^verbatim>\<open>asio::error::operation_aborted\<close>,
  \<^verbatim>\<open>asio::error::eof\<close>). An \<^verbatim>\<open>asio::error_code\<close> is an optional error: \<open>None\<close> is
  the default-constructed code, which tests false.
\<close>

datatype error =
    resp3_simple_error
  | resp3_blob_error
  | exec_timeout
  | incompatible_size
  | unknown_resp3_type
  | not_a_number
  | operation_aborted
  | eof

type_synonym error_code = "error option"

text \<open>
  \<^verbatim>\<open>AEDIS_CHECK_OP1\<close> completes with \<^verbatim>\<open>!!ec ? ec : asio::error::operation_aborted\<close>.
\<close>

definition or_aborted :: "error_code \<Rightarrow> error_code" where
  "or_aborted e = (case e of Some x \<Rightarrow> Some x | None \<Rightarrow> Some operation_aborted)"

section \<open>The ignore adapter\<close>


section \<open>The stream and the two Asio reads\<close>

text \<open>
  A stream is the list of the byte chunks that the socket will hand over, one per
  \<^verbatim>\<open>read_some\<close>, in order; the exhausted list is the end of the stream. A dynamic buffer
  is the byte string it holds. Bytes are \<open>char\<close>.
\<close>

type_synonym stream = "string list"

definition crlf :: string where
  "crlf = [CHR 0x0D, CHR 0x0A]"

text \<open>The position of the first \<^verbatim>\<open>"\r\n"\<close> in a byte string.\<close>

fun find_crlf :: "string \<Rightarrow> nat option" where
  "find_crlf (x # y # zs) =
     (if x = CHR 0x0D \<and> y = CHR 0x0A then Some 0 else map_option Suc (find_crlf (y # zs)))"
| "find_crlf _ = None"

text \<open>
  \<^verbatim>\<open>asio::read_until(stream, buf, "\r\n", ec)\<close>: if the buffer already holds the
  delimiter, return the number of bytes up to and including it, without reading; otherwise
  append the next chunk of the stream and look again; at the end of the stream fail with
  \<open>eof\<close> and 0. Every byte read stays in the buffer. The result is the error code, the
  returned count, the rest of the stream and the buffer.
\<close>

fun read_until :: "stream \<Rightarrow> string \<Rightarrow> error_code \<times> nat \<times> stream \<times> string" where
  "read_until [] buf =
     (case find_crlf buf of
        Some i \<Rightarrow> (None, i + 2, [], buf)
      | None \<Rightarrow> (Some eof, 0, [], buf))"
| "read_until (c # cs) buf =
     (case find_crlf buf of
        Some i \<Rightarrow> (None, i + 2, c # cs, buf)
      | None \<Rightarrow> read_until cs (buf @ c))"

text \<open>
  \<^verbatim>\<open>asio::read(stream, buffer of k bytes, ec)\<close>: take chunks until exactly \<open>k\<close> bytes are
  transferred, leaving the unread part of the last chunk in the stream; at the end of the
  stream fail with \<open>eof\<close>. The result is the error code, the bytes transferred and the
  rest of the stream.
\<close>

fun asio_read :: "nat \<Rightarrow> stream \<Rightarrow> error_code \<times> string \<times> stream" where
  "asio_read k [] = (if k = 0 then (None, [], []) else (Some eof, [], []))"
| "asio_read k (c # cs) =
     (if k \<le> length c then (None, take k c, (if k < length c then drop k c # cs else cs))
      else (case asio_read (k - length c) cs of (e, bs, st) \<Rightarrow> (e, c @ bs, st)))"

text \<open>
  \<^verbatim>\<open>buf.grow(k)\<close> followed by a read into the grown region: the bytes transferred, and
  value-initialised bytes in the part of the region that the read did not fill.
\<close>

definition grown :: "string \<Rightarrow> nat \<Rightarrow> string \<Rightarrow> string" where
  "grown buf k bs = buf @ bs @ replicate (k - length bs) (CHR 0x00)"

section \<open>The parser as the read operations use it\<close>

text \<open>
  \<^verbatim>\<open>detail::parser<ResponseAdapter>\<close> is declared in \<^verbatim>\<open>resp3/detail/parser.hpp\<close>,
  which is not among the sources. The read operations use four members of it, and the model
  takes them as a parameter: \<open>bulk\<close> (the kind of the blob expected next, \<open>invalid\<close> if
  none), \<open>bulk_length\<close>, \<open>consume\<close> and \<open>parser_done\<close> (the member \<^verbatim>\<open>done()\<close>). The
  parser owns the response adapter, so a parser state \<open>'p\<close> includes whatever the adapter
  has recorded. \<open>consume p data n ec\<close> receives the contents of the buffer that the
  pointer \<^verbatim>\<open>data\<close> addresses, the count \<open>n\<close> and the error code passed by reference; it
  returns the new state, the returned count and the outgoing error code.
\<close>

record 'p parser_ops =
  bulk :: "'p \<Rightarrow> type"
  bulk_length :: "'p \<Rightarrow> nat"
  consume :: "'p \<Rightarrow> string \<Rightarrow> nat \<Rightarrow> error_code \<Rightarrow> 'p \<times> nat \<times> error_code"
  parser_done :: "'p \<Rightarrow> bool"

text \<open>
  What a read operation leaves behind: the error code and the byte count it returns or
  completes with, the final value of its counter of consumed bytes, the parser, the rest of
  the stream and the dynamic buffer.
\<close>

record 'p read_result =
  ec :: error_code
  ret :: nat
  consumed :: nat
  parser :: 'p
  stream_left :: stream
  buf_left :: string

section \<open>The synchronous read\<close>

text \<open>
  The first half of the loop body of \<^verbatim>\<open>resp3::read\<close>: with no blob expected,
  \<^verbatim>\<open>n = asio::read_until(stream, buf, "\r\n", ec)\<close>; with a blob of length \<open>l\<close> expected
  and fewer than \<open>l + 2\<close> bytes in the buffer, grow the buffer by the missing
  \<open>to_read\<close> bytes and \<^verbatim>\<open>n = asio::read(stream, buf.data(s, to_read), ec)\<close>; otherwise
  nothing is read and \<open>n\<close> keeps the value of the previous iteration.
\<close>

definition read_fill ::
  "'p parser_ops \<Rightarrow> 'p \<Rightarrow> nat \<Rightarrow> stream \<Rightarrow> string \<Rightarrow> error_code \<times> nat \<times> stream \<times> string" where
  "read_fill P p n st buf =
     (if bulk P p = invalid then read_until st buf
      else
        let s = length buf; l = bulk_length P p in
        if s < l + 2 then
          (case asio_read (l + 2 - s) st of
             (e, bs, st') \<Rightarrow> (e, length bs, st', grown buf (l + 2 - s) bs))
        else (None, n, st, buf))"

text \<open>
  The loop \<^verbatim>\<open>do { ... } while (!p.done())\<close> of \<^verbatim>\<open>resp3::read\<close>, one unit of fuel per
  iteration (the parser is a parameter, so nothing bounds the number of iterations). Every
  \<^verbatim>\<open>if (ec) return 0\<close> is a result with \<open>ret = 0\<close>; \<^verbatim>\<open>buf.consume(n)\<close> removes
  the first \<open>n\<close> bytes of the buffer (all of them if there are fewer).
\<close>

fun read_loop ::
  "nat \<Rightarrow> 'p parser_ops \<Rightarrow> 'p \<Rightarrow> nat \<Rightarrow> nat \<Rightarrow> stream \<Rightarrow> string \<Rightarrow> 'p read_result option" where
  "read_loop 0 P p n c st buf = None"
| "read_loop (Suc fuel) P p n c st buf =
     (case read_fill P p n st buf of
        (Some e, n1, st1, buf1) \<Rightarrow>
          Some \<lparr>ec = Some e, ret = 0, consumed = c, parser = p,
                stream_left = st1, buf_left = buf1\<rparr>
      | (None, n1, st1, buf1) \<Rightarrow>
          (case consume P p buf1 n1 None of
             (p2, n2, Some e) \<Rightarrow>
               Some \<lparr>ec = Some e, ret = 0, consumed = c, parser = p2,
                     stream_left = st1, buf_left = buf1\<rparr>
           | (p2, n2, None) \<Rightarrow>
               if parser_done P p2 then
                 Some \<lparr>ec = None, ret = c + n2, consumed = c + n2, parser = p2,
                       stream_left = st1, buf_left = drop n2 buf1\<rparr>
               else read_loop fuel P p2 n2 (c + n2) st1 (drop n2 buf1)))"

text \<open>
  \<^verbatim>\<open>resp3::read(stream, buf, adapter, ec)\<close>; \<open>p0\<close> is the parser constructed from the
  adapter, and \<open>n\<close> and \<open>consumed\<close> start at 0.
\<close>

definition read :: "nat \<Rightarrow> 'p parser_ops \<Rightarrow> 'p \<Rightarrow> stream \<Rightarrow> string \<Rightarrow> 'p read_result option" where
  "read fuel P p0 st buf = read_loop fuel P p0 0 0 st buf"

section \<open>The asynchronous read\<close>







text \<open>The bytes that a read operation has not removed: the buffer, then the stream.\<close>

definition pending :: "stream \<Rightarrow> string \<Rightarrow> string" where
  "pending st buf = buf @ concat st"


section \<open>The exec operation\<close>




section \<open>The reader of the client\<close>

text \<open>
  The commands of \<^verbatim>\<open>redis::command\<close> that the sources name, and its value for "no
  command".
\<close>

datatype command =
    hello | hset | rpush | sadd | hgetall | lrange | smembers | publish | subscribe | quit
  | invalid_command

text \<open>The calls to the receiver that the reader and the writer make.\<close>

datatype event = on_read command | on_write nat

text \<open>
  The members of the client that \<^verbatim>\<open>read_op\<close> touches: the read buffer, the queue of
  commands awaiting a response, the flag that stops the writer, the stream behind the
  socket, and the receiver's state. \<open>timer_cancels\<close> counts the calls of
  \<^verbatim>\<open>timer_.cancel_one()\<close> and \<open>trace\<close> records the calls to the receiver; \<open>queue\<close> holds
  whatever else \<^verbatim>\<open>on_cmd\<close> maintains (the per-request counters).
\<close>

record ('q, 'r) client =
  read_buffer :: string
  commands :: "command list"
  queue :: 'q
  stop_writer :: bool
  timer_cancels :: nat
  socket_in :: stream
  receiver :: 'r
  trace :: "event list"

datatype 'a step = Continue 'a | Complete error_code 'a | Assert_failed

text \<open>
  One iteration of the loop of \<^verbatim>\<open>read_op::operator()\<close>. \<^verbatim>\<open>resp3::detail::to_type\<close>,
  \<^verbatim>\<open>client::on_cmd\<close> and the \<^verbatim>\<open>resp3::async_read\<close> with the adapter that forwards to
  \<^verbatim>\<open>on_resp3\<close> of the receiver are parameters: \<open>to_type\<close> maps the first byte of a frame
  to its kind, \<open>on_cmd\<close> returns its boolean and the client it leaves, and
  \<open>async_read cmd\<close> runs on the stream, the read buffer and the receiver. An iteration
  ends in the next iteration, in the completion of the operation, or in a failed
  \<^verbatim>\<open>assert\<close>.
\<close>

definition read_op_step ::
  "(char \<Rightarrow> type)
   \<Rightarrow> (command \<Rightarrow> stream \<Rightarrow> string \<Rightarrow> 'r \<Rightarrow> error_code \<times> nat \<times> stream \<times> string \<times> 'r)
   \<Rightarrow> (('q, 'r) client \<Rightarrow> bool \<times> ('q, 'r) client)
   \<Rightarrow> ('q, 'r) client \<Rightarrow> ('q, 'r) client step" where
  "read_op_step to_type async_read on_cmd cli =
     (case (if read_buffer cli = []
            then (case read_until (socket_in cli) (read_buffer cli) of
                    (e, n, st, b) \<Rightarrow> (e, cli\<lparr>socket_in := st, read_buffer := b\<rparr>))
            else (None, cli)) of
        (Some e, cli1) \<Rightarrow> Complete (Some e) (cli1\<lparr>stop_writer := True\<rparr>)
      | (None, cli1) \<Rightarrow>
          (case read_buffer cli1 of
             [] \<Rightarrow> Assert_failed
           | front # _ \<Rightarrow>
               let t = to_type front in
               if t \<noteq> push \<and> commands cli1 = [] then Assert_failed
               else
                 let cmd = (if t \<noteq> push then hd (commands cli1) else invalid_command) in
                 (case async_read cmd (socket_in cli1) (read_buffer cli1) (receiver cli1) of
                    (e, n, st, b, r) \<Rightarrow>
                      let cli2 = cli1\<lparr>socket_in := st, read_buffer := b, receiver := r\<rparr> in
                      if e \<noteq> None then Complete e (cli2\<lparr>stop_writer := True\<rparr>)
                      else
                        let cli3 =
                          (if t \<noteq> push
                           then (case on_cmd cli2 of
                                   (wake, c) \<Rightarrow>
                                     if wake then c\<lparr>timer_cancels := timer_cancels c + 1\<rparr> else c)
                           else cli2)
                        in Continue (cli3\<lparr>trace := trace cli3 @ [on_read cmd]\<rparr>))))"

section \<open>A concrete parser and concrete inputs\<close>

text \<open>
  Modelled from the spec: \<^verbatim>\<open>resp3/type.hpp\<close> and \<^verbatim>\<open>resp3/detail/parser.hpp\<close> are not
  among the sources, so the type bytes, the multiplicity and the parser below follow
  sections 3, 4.A and 4.B of the specification. They instantiate the parser parameter of
  the read operations at concrete inputs.
\<close>

text \<open>
  Modelled from the spec: "Every element begins with a single type byte", with the bytes of
  RESP3 for the kinds; \<^verbatim>\<open>>\<close> is the push type.
\<close>

definition to_type :: "char \<Rightarrow> type" where
  "to_type c =
     (if c = CHR ''+'' then simple_string
      else if c = CHR ''-'' then simple_error
      else if c = CHR '':'' then number
      else if c = CHR '','' then doublean
      else if c = CHR ''#'' then boolean
      else if c = CHR ''_'' then null_type
      else if c = CHR ''('' then big_number
      else if c = CHR ''='' then verbatim_string
      else if c = CHR ''$'' then blob_string
      else if c = CHR ''!'' then blob_error
      else if c = CHR ''*'' then array
      else if c = CHR ''~'' then set_type
      else if c = CHR ''%'' then map_type
      else if c = CHR ''|'' then attribute
      else if c = CHR ''>'' then push
      else if c = CHR '';'' then streamed_string_part
      else invalid)"

text \<open>
  Modelled from the spec: the aggregates are "array, map, set, attribute, push", and the blob
  kinds carry a declared byte length in their header.
\<close>

definition is_aggregate :: "type \<Rightarrow> bool" where
  "is_aggregate t = (t = array \<or> t = push \<or> t = set_type \<or> t = map_type \<or> t = attribute)"

definition is_blob :: "type \<Rightarrow> bool" where
  "is_blob t = (t = blob_string \<or> t = blob_error \<or> t = verbatim_string)"

text \<open>Modelled from the spec: "element multiplicity is 2 for map/attribute, 1 otherwise".\<close>

definition element_multiplicity :: "type \<Rightarrow> nat" where
  "element_multiplicity t = (if t = map_type \<or> t = attribute then 2 else 1)"

text \<open>
  Modelled from the spec: a declared size or length is a decimal number; anything else is
  the error \<open>not_a_number\<close>.
\<close>

fun to_int_from :: "nat \<Rightarrow> string \<Rightarrow> nat option" where
  "to_int_from acc [] = Some acc"
| "to_int_from acc (c # cs) =
     (if 48 \<le> (of_char c :: nat) \<and> (of_char c :: nat) \<le> 57
      then to_int_from (10 * acc + (of_char c - 48)) cs
      else None)"

definition to_int :: "string \<Rightarrow> nat option" where
  "to_int s = (if s = [] then None else to_int_from 0 s)"

text \<open>
  Modelled from the spec: the stack of frames "(aggregate_kind, remaining_children,
  depth)". A frame of a streamed element has no count (\<open>None\<close>) and stays open until
  the terminator.
\<close>

record frame =
  frame_kind :: type
  remaining :: "nat option"
  frame_depth :: nat

text \<open>
  Modelled from the spec: the parser state is the stack, the kind and length of the blob
  whose payload is expected next (\<open>invalid\<close> if none), and the state of the adapter the
  parser owns.
\<close>

record 'a parser_state =
  frames :: "frame list"
  expect :: type
  expect_length :: nat
  adapter_state :: 'a

text \<open>
  A response adapter: called with a node and the error code by reference, it updates its
  own state and the code.
\<close>

type_synonym 'a adapter = "node \<Rightarrow> 'a \<Rightarrow> error_code \<Rightarrow> 'a \<times> error_code"

text \<open>
  Modelled from the spec: the depth of a node is the "current nesting level", 0 at the root
  and the depth of the top frame inside an aggregate.
\<close>

definition cur_depth :: "frame list \<Rightarrow> nat" where
  "cur_depth fs = (case fs of [] \<Rightarrow> 0 | f # _ \<Rightarrow> frame_depth f)"

text \<open>
  Modelled from the spec: "decrement the top frame's remaining. While top frame's
  remaining == 0, pop it and decrement the next."
\<close>

fun element_done :: "frame list \<Rightarrow> frame list" where
  "element_done [] = []"
| "element_done (f # fs) =
     (case remaining f of
        None \<Rightarrow> f # fs
      | Some k \<Rightarrow> if k \<le> 1 then element_done fs else f\<lparr>remaining := Some (k - 1)\<rparr> # fs)"

text \<open>
  Modelled from the spec: the zero-length chunk "terminates the stream"; it closes the open
  frame of the streamed element on top of the stack.
\<close>

fun stream_end :: "frame list \<Rightarrow> frame list" where
  "stream_end [] = []"
| "stream_end (f # fs) = (if remaining f = None then element_done fs else element_done (f # fs))"

text \<open>Modelled from the spec: "Emit a node event to the current adapter".\<close>

definition emit ::
  "'a adapter \<Rightarrow> type \<Rightarrow> nat \<Rightarrow> string \<Rightarrow> 'a parser_state \<Rightarrow> error_code
   \<Rightarrow> 'a parser_state \<times> error_code" where
  "emit A t sz payload p e =
     (case A \<lparr>data_type = t, aggregate_size = sz, depth = cur_depth (frames p),
              value = payload\<rparr> (adapter_state p) e of
        (a, e') \<Rightarrow> (p\<lparr>adapter_state := a\<rparr>, e'))"

text \<open>
  Modelled from the spec: one header line, that is the type byte, the header payload and
  \<^verbatim>\<open>"\r\n"\<close>. A blob or a non-empty streamed chunk only records the kind and the length
  expected next; an aggregate is emitted and, unless empty, pushes its frame; a streamed
  element (declared size \<^verbatim>\<open>?\<close>) pushes an open frame; every other element is emitted
  and counted in the top frame.
\<close>

definition consume_header ::
  "'a adapter \<Rightarrow> 'a parser_state \<Rightarrow> string \<Rightarrow> nat \<Rightarrow> error_code
   \<Rightarrow> 'a parser_state \<times> nat \<times> error_code" where
  "consume_header A p line n e =
     (case line of
        [] \<Rightarrow> (p, 0, Some unknown_resp3_type)
      | c # rest \<Rightarrow>
          let t = to_type c; payload = take (length rest - 2) rest in
          if t = invalid then (p, 0, Some unknown_resp3_type)
          else if (is_aggregate t \<or> t = blob_string) \<and> payload = ''?'' then
            (case emit A t (if is_aggregate t then 0 else 1) [] p e of
               (p1, e1) \<Rightarrow>
                 if e1 \<noteq> None then (p1, 0, e1)
                 else (p1\<lparr>frames := \<lparr>frame_kind = t, remaining = None,
                            frame_depth = cur_depth (frames p1) + 1\<rparr> # frames p1\<rparr>, n, None))
          else if is_aggregate t \<or> is_blob t \<or> t = streamed_string_part then
            (case to_int payload of
               None \<Rightarrow> (p, 0, Some not_a_number)
             | Some l \<Rightarrow>
                 if is_aggregate t then
                   (case emit A t l [] p e of
                      (p1, e1) \<Rightarrow>
                        if e1 \<noteq> None then (p1, 0, e1)
                        else if l = 0 then (p1\<lparr>frames := element_done (frames p1)\<rparr>, n, None)
                        else (p1\<lparr>frames :=
                                \<lparr>frame_kind = t, remaining = Some (l * element_multiplicity t),
                                 frame_depth = cur_depth (frames p1) + 1\<rparr> # frames p1\<rparr>, n, None))
                 else if t = streamed_string_part \<and> l = 0 then
                   (case emit A t 1 [] p e of
                      (p1, e1) \<Rightarrow>
                        if e1 \<noteq> None then (p1, 0, e1)
                        else (p1\<lparr>frames := stream_end (frames p1)\<rparr>, n, None))
                 else (p\<lparr>expect := t, expect_length := l\<rparr>, n, None))
          else
            (case emit A t 1 payload p e of
               (p1, e1) \<Rightarrow>
                 if e1 \<noteq> None then (p1, 0, e1)
                 else (p1\<lparr>frames := element_done (frames p1)\<rparr>, n, None)))"

text \<open>
  Modelled from the spec: "for blob kinds, after the header read exactly length bytes then
  \<^verbatim>\<open>\r\n\<close>". With a blob expected the parser takes the payload by its declared length
  and reports that length plus 2; otherwise it parses the header line of \<open>n\<close> bytes.
\<close>

definition parser_consume ::
  "'a adapter \<Rightarrow> 'a parser_state \<Rightarrow> string \<Rightarrow> nat \<Rightarrow> error_code
   \<Rightarrow> 'a parser_state \<times> nat \<times> error_code" where
  "parser_consume A p d n e =
     (if expect p \<noteq> invalid then
        (case emit A (expect p) 1 (take (expect_length p) d) p e of
           (p1, e1) \<Rightarrow>
             if e1 \<noteq> None then (p1, 0, e1)
             else (p1\<lparr>expect := invalid, frames := element_done (frames p1)\<rparr>,
                   expect_length p + 2, None))
      else consume_header A p (take n d) n e)"

text \<open>
  Modelled from the spec: "When the stack is empty the top-level element is complete", once
  no payload is outstanding.
\<close>

definition resp3_parser :: "'a adapter \<Rightarrow> 'a parser_state parser_ops" where
  "resp3_parser A =
     \<lparr>bulk = expect, bulk_length = expect_length, consume = parser_consume A,
      parser_done = (\<lambda>p. frames p = [] \<and> expect p = invalid)\<rparr>"

text \<open>
  Modelled from the spec: a parser constructed from an adapter has an empty stack and expects
  no blob.
\<close>

definition new_parser :: "'a \<Rightarrow> 'a parser_state" where
  "new_parser a = \<lparr>frames = [], expect = invalid, expect_length = 0, adapter_state = a\<rparr>"

text \<open>
  Two adapters: one that appends every node to a list, and \<open>ignore_response\<close>, which has
  no state.
\<close>

definition node_dump :: "node list adapter" where
  "node_dump nd xs e = (xs @ [nd], e)"



text \<open>
  Two replies as a server sends them: an array of a simple string and a blob string whose
  payload contains \<^verbatim>\<open>"\r\n"\<close>, followed by the start of the next reply, in three chunks
  that split a delimiter and the blob; and an array of two elements cut off after the first.
\<close>

definition reply_chunked :: stream where
  "reply_chunked =
     [''*2'' @ crlf @ ''+a'' @ [CHR 0x0D],
      [CHR 0x0A] @ ''$4'' @ crlf @ ''x'' @ crlf,
      ''y'' @ crlf @ ''+next'' @ crlf]"


definition reply_truncated :: stream where
  "reply_truncated = [''*2'' @ crlf, ''+a'' @ crlf]"



text \<open>
  A client with two commands awaiting their responses and a frame in its read buffer, a read
  that takes the whole buffer and hands the command to \<^verbatim>\<open>on_resp3\<close> of the receiver, which
  records it, and an \<^verbatim>\<open>on_cmd\<close> that pops the command at the front of the queue and asks
  for the writer to be woken.
\<close>

definition demo_client :: "string \<Rightarrow> (unit, command list) client" where
  "demo_client buf =
     \<lparr>read_buffer = buf, commands = [hello, quit], queue = (), stop_writer = False,
      timer_cancels = 0, socket_in = [], receiver = [], trace = []\<rparr>"

definition demo_async_read ::
  "command \<Rightarrow> stream \<Rightarrow> string \<Rightarrow> command list
   \<Rightarrow> error_code \<times> nat \<times> stream \<times> string \<times> command list" where
  "demo_async_read cmd st buf r = (None, length buf, st, [], r @ [cmd])"

definition demo_on_cmd :: "(unit, command list) client \<Rightarrow> bool \<times> (unit, command list) client" where
  "demo_on_cmd c = (True, c\<lparr>commands := tl (commands c)\<rparr>)"






section \<open>The timed exec operation\<close>

text \<open>
  \<^verbatim>\<open>exec_with_timeout_op::operator()\<close> after its single suspension point. The parallel
  group of the exec operation (index 0) and the timer wait (index 1) hands over the completion
  order, the exec's error and byte count and the timer's error; \<open>cancelled\<close> is
  \<^verbatim>\<open>is_cancelled(self)\<close>. The result is the pair the operation completes with; \<open>None\<close>
  is the \<^verbatim>\<open>ASIO_ASSERT(false)\<close> of the default branch.
\<close>

definition exec_with_timeout_op ::
  "bool \<Rightarrow> nat \<Rightarrow> error_code \<Rightarrow> nat \<Rightarrow> error_code \<Rightarrow> (error_code \<times> nat) option" where
  "exec_with_timeout_op cancelled order0 ec1 n ec2 =
     (if cancelled then Some (Some operation_aborted, 0)
      else if order0 = 0 then Some (ec1, n)
      else if order0 = 1 then
        (if ec2 \<noteq> None then Some (ec2, 0) else Some (Some exec_timeout, 0))
      else None)"

section \<open>Facts about the reads and the parser contract\<close>


lemma find_crlf_prefix: "find_crlf a = Some i \<Longrightarrow> find_crlf (a @ b) = Some i"
  by (induction a arbitrary: i rule: find_crlf.induct) (auto split: if_splits)


lemma read_until_whole:
  "read_until st buf = (e, n, st', buf') \<Longrightarrow>
   (case find_crlf (pending st buf) of
      Some i \<Rightarrow> e = None \<and> n = i + 2 \<and> find_crlf buf' = Some i
    | None \<Rightarrow> e = Some eof \<and> n = 0)"
proof (induction st arbitrary: buf)
  case Nil
  then show ?case by (auto simp: pending_def split: option.splits)
next
  case (Cons c cs)
  show ?case
  proof (cases "find_crlf buf")
    case None
    with Cons.prems have "read_until cs (buf @ c) = (e, n, st', buf')" by simp
    from Cons.IH [OF this] show ?thesis by (simp add: pending_def)
  next
    case (Some i)
    with Cons.prems show ?thesis by (auto simp: pending_def find_crlf_prefix)
  qed
qed



lemma or_aborted_simps [simp]:
  "or_aborted e \<noteq> None" "or_aborted (Some x) = Some x" "or_aborted None = Some operation_aborted"
  by (simp_all add: or_aborted_def split: option.splits)

lemma pending_nil [simp]: "pending [] buf = buf"
  by (simp add: pending_def)









lemma read_loop_error_zero:
  "read_loop fuel P p n c st buf = Some r \<Longrightarrow>
   (ec r \<noteq> None \<longrightarrow> ret r = 0) \<and> (ec r = None \<longrightarrow> ret r = consumed r) \<and> c \<le> consumed r"
proof (induction fuel arbitrary: p n c st buf)
  case 0
  then show ?case by simp
next
  case (Suc fuel)
  obtain e1 n1 st1 buf1 where f: "read_fill P p n st buf = (e1, n1, st1, buf1)"
    by (cases "read_fill P p n st buf") auto
  obtain p2 n2 e2 where cs: "consume P p buf1 n1 None = (p2, n2, e2)"
    by (cases "consume P p buf1 n1 None") auto
  show ?case
  proof (cases "e1 = None \<and> e2 = None \<and> \<not> parser_done P p2")
    case True
    with f cs Suc.prems have "read_loop fuel P p2 n2 (c + n2) st1 (drop n2 buf1) = Some r"
      by simp
    from Suc.IH [OF this] show ?thesis by simp
  next
    case False
    with f cs Suc.prems show ?thesis
      by (cases e1; cases e2) (auto split: if_splits)
  qed
qed










section \<open>Properties of the read operations\<close>



lemma pending_single [simp]: "pending [x] buf = buf @ x"
  by (simp add: pending_def)








text \<open>
  Claim C10. Whenever the synchronous read completes with an error it returns 0, whatever
  its counter of consumed bytes has reached; on success it returns that counter.
\<close>

theorem read_error_returns_zero:
  "read fuel P p0 st buf = Some r \<Longrightarrow>
   (ec r \<noteq> None \<longrightarrow> ret r = 0) \<and> (ec r = None \<longrightarrow> ret r = consumed r)"
  using read_loop_error_zero [of fuel P p0 0 0 st buf r] by (simp add: read_def)

theorem read_error_returns_zero_witness:
  "(\<exists>r. read 26 (resp3_parser node_dump) (new_parser []) reply_truncated [] = Some r
        \<and> ec r = Some eof \<and> ret r = 0 \<and> consumed r = 8
        \<and> stream_left r = [] \<and> buf_left r = [])
   \<and> (\<exists>r. read 26 (resp3_parser node_dump) (new_parser []) reply_chunked [] = Some r
        \<and> ec r = None \<and> ret r = consumed r \<and> consumed r = 18)"
proof -
  have "map_option (\<lambda>r. (ec r, consumed r, stream_left r, buf_left r))
          (read 26 (resp3_parser node_dump) (new_parser []) reply_truncated [])
        = Some (Some eof, 8, [], [])"
    by code_simp
  then obtain r where r: "read 26 (resp3_parser node_dump) (new_parser []) reply_truncated [] = Some r"
    and v: "ec r = Some eof" "consumed r = 8" "stream_left r = []" "buf_left r = []"
    by auto
  have "map_option (\<lambda>r. (ec r, consumed r))
          (read 26 (resp3_parser node_dump) (new_parser []) reply_chunked [])
        = Some (None, 18)"
    by code_simp
  then obtain r' where r': "read 26 (resp3_parser node_dump) (new_parser []) reply_chunked [] = Some r'"
    and v': "ec r' = None" "consumed r' = 18"
    by auto
  from read_error_returns_zero [OF r] v have "ret r = 0" by simp
  moreover from read_error_returns_zero [OF r'] v' have "ret r' = consumed r'" by simp
  ultimately show ?thesis using r v r' v' by blast
qed





section \<open>Properties of the reader of the client\<close>

text \<open>
  Claim C4. The reader decides whether the frame in its buffer is a push from the first byte
  of the buffer alone, before the frame is parsed. For a push it reads with no command
  (\<open>invalid_command\<close>), does not call \<^verbatim>\<open>on_cmd\<close> (the iteration is the same whatever
  \<^verbatim>\<open>on_cmd\<close> does), and leaves the queue of commands, the per-request state and the timer
  as they were. For any other frame it takes the command at the front of the queue, which
  must not be empty, reads with it and, once the read has succeeded, calls \<^verbatim>\<open>on_cmd\<close>,
  which consumes the command and advances the queue. With an empty buffer it first reads up
  to a delimiter and then does the same.
\<close>

theorem read_op_push_detection:
  "(read_buffer cli = front # rest \<longrightarrow> type_of front = push \<longrightarrow>
      read_op_step type_of async_read on_cmd cli
        = (case async_read invalid_command (socket_in cli) (read_buffer cli) (receiver cli) of
             (e, n, st, b, r) \<Rightarrow>
               if e \<noteq> None
               then Complete e (cli\<lparr>socket_in := st, read_buffer := b, receiver := r,
                                   stop_writer := True\<rparr>)
               else Continue (cli\<lparr>socket_in := st, read_buffer := b, receiver := r,
                                   trace := trace cli @ [on_read invalid_command]\<rparr>)))
   \<and> (read_buffer cli = front # rest \<longrightarrow> type_of front \<noteq> push \<longrightarrow> commands cli \<noteq> [] \<longrightarrow>
      read_op_step type_of async_read on_cmd cli
        = (case async_read (hd (commands cli)) (socket_in cli) (read_buffer cli)
                  (receiver cli) of
             (e, n, st, b, r) \<Rightarrow>
               if e \<noteq> None
               then Complete e (cli\<lparr>socket_in := st, read_buffer := b, receiver := r,
                                   stop_writer := True\<rparr>)
               else (case on_cmd (cli\<lparr>socket_in := st, read_buffer := b, receiver := r\<rparr>) of
                       (wake, c) \<Rightarrow>
                         Continue (c\<lparr>timer_cancels := timer_cancels c + (if wake then 1 else 0),
                                      trace := trace c @ [on_read (hd (commands cli))]\<rparr>))))
   \<and> (read_buffer cli = front # rest \<longrightarrow> type_of front \<noteq> push \<longrightarrow> commands cli = [] \<longrightarrow>
      read_op_step type_of async_read on_cmd cli = Assert_failed)
   \<and> (read_buffer cli = [] \<longrightarrow> read_until (socket_in cli) [] = (None, n0, st0, b0) \<longrightarrow>
      b0 \<noteq> []
      \<and> read_op_step type_of async_read on_cmd cli
        = read_op_step type_of async_read on_cmd (cli\<lparr>socket_in := st0, read_buffer := b0\<rparr>))
   \<and> (read_buffer cli = front # rest \<longrightarrow> type_of front = push \<longrightarrow>
      read_op_step type_of async_read on_cmd cli = read_op_step type_of async_read on_cmd' cli)
   \<and> (read_buffer cli = front # rest \<longrightarrow> type_of front = push \<longrightarrow>
      (read_op_step type_of async_read on_cmd cli = Continue cli'
       \<or> read_op_step type_of async_read on_cmd cli = Complete e' cli') \<longrightarrow>
      commands cli' = commands cli \<and> queue cli' = queue cli
      \<and> timer_cancels cli' = timer_cancels cli)"
proof (intro conjI impI)
  assume "read_buffer cli = front # rest" "type_of front = push"
  then show "read_op_step type_of async_read on_cmd cli
        = (case async_read invalid_command (socket_in cli) (read_buffer cli) (receiver cli) of
             (e, n, st, b, r) \<Rightarrow>
               if e \<noteq> None
               then Complete e (cli\<lparr>socket_in := st, read_buffer := b, receiver := r,
                                   stop_writer := True\<rparr>)
               else Continue (cli\<lparr>socket_in := st, read_buffer := b, receiver := r,
                                   trace := trace cli @ [on_read invalid_command]\<rparr>))"
    by (simp add: read_op_step_def Let_def split: prod.splits)
next
  assume "read_buffer cli = front # rest" "type_of front \<noteq> push" "commands cli \<noteq> []"
  then show "read_op_step type_of async_read on_cmd cli
        = (case async_read (hd (commands cli)) (socket_in cli) (read_buffer cli)
                  (receiver cli) of
             (e, n, st, b, r) \<Rightarrow>
               if e \<noteq> None
               then Complete e (cli\<lparr>socket_in := st, read_buffer := b, receiver := r,
                                   stop_writer := True\<rparr>)
               else (case on_cmd (cli\<lparr>socket_in := st, read_buffer := b, receiver := r\<rparr>) of
                       (wake, c) \<Rightarrow>
                         Continue (c\<lparr>timer_cancels := timer_cancels c + (if wake then 1 else 0),
                                      trace := trace c @ [on_read (hd (commands cli))]\<rparr>)))"
    by (simp add: read_op_step_def Let_def split: prod.splits)
next
  assume "read_buffer cli = front # rest" "type_of front \<noteq> push" "commands cli = []"
  then show "read_op_step type_of async_read on_cmd cli = Assert_failed"
    by (simp add: read_op_step_def Let_def)
next
  assume a: "read_buffer cli = []" "read_until (socket_in cli) [] = (None, n0, st0, b0)"
  from read_until_whole [OF a(2)] have "find_crlf b0 \<noteq> None" by (auto split: option.splits)
  then show "b0 \<noteq> []" by auto
next
  assume a: "read_buffer cli = []" "read_until (socket_in cli) [] = (None, n0, st0, b0)"
  from read_until_whole [OF a(2)] have "find_crlf b0 \<noteq> None" by (auto split: option.splits)
  then have "b0 \<noteq> []" by auto
  with a show "read_op_step type_of async_read on_cmd cli
        = read_op_step type_of async_read on_cmd (cli\<lparr>socket_in := st0, read_buffer := b0\<rparr>)"
    by (simp add: read_op_step_def)
next
  assume "read_buffer cli = front # rest" "type_of front = push"
  then show "read_op_step type_of async_read on_cmd cli
      = read_op_step type_of async_read on_cmd' cli"
    by (simp add: read_op_step_def Let_def split: prod.splits)
next
  assume a: "read_buffer cli = front # rest" "type_of front = push"
    and b: "read_op_step type_of async_read on_cmd cli = Continue cli'
       \<or> read_op_step type_of async_read on_cmd cli = Complete e' cli'"
  obtain e n st b r where
    r: "async_read invalid_command (socket_in cli) (read_buffer cli) (receiver cli)
        = (e, n, st, b, r)"
    by (cases "async_read invalid_command (socket_in cli) (read_buffer cli) (receiver cli)") auto
  from a b r have "cli' = cli\<lparr>socket_in := st, read_buffer := b, receiver := r,
                               stop_writer := True\<rparr>
      \<or> cli' = cli\<lparr>socket_in := st, read_buffer := b, receiver := r,
                     trace := trace cli @ [on_read invalid_command]\<rparr>"
    by (auto simp: read_op_step_def Let_def split: if_splits)
  then show "commands cli' = commands cli" "queue cli' = queue cli"
    "timer_cancels cli' = timer_cancels cli" by auto
qed

theorem read_op_push_detection_witness:
  "read_op_step to_type demo_async_read demo_on_cmd (demo_client (''>2'' @ crlf))
     = Continue \<lparr>read_buffer = [], commands = [hello, quit], queue = (), stop_writer = False,
         timer_cancels = 0, socket_in = [], receiver = [invalid_command],
         trace = [on_read invalid_command]\<rparr>
   \<and> read_op_step to_type demo_async_read demo_on_cmd (demo_client (''+OK'' @ crlf))
     = Continue \<lparr>read_buffer = [], commands = [quit], queue = (), stop_writer = False,
         timer_cancels = 1, socket_in = [], receiver = [hello],
         trace = [on_read hello]\<rparr>"
proof -
  have p: "read_buffer (demo_client (''>2'' @ crlf)) = CHR ''>'' # (''2'' @ crlf)"
    "to_type (CHR ''>'') = push"
    by (simp_all add: demo_client_def to_type_def)
  have q: "read_buffer (demo_client (''+OK'' @ crlf)) = CHR ''+'' # (''OK'' @ crlf)"
    "to_type (CHR ''+'') \<noteq> push" "commands (demo_client (''+OK'' @ crlf)) \<noteq> []"
    by (simp_all add: demo_client_def to_type_def)
  from read_op_push_detection [where cli = "demo_client (''>2'' @ crlf)" and front = "CHR ''>''"
      and rest = "''2'' @ crlf" and type_of = to_type and async_read = demo_async_read
      and on_cmd = demo_on_cmd] p
  have a: "read_op_step to_type demo_async_read demo_on_cmd (demo_client (''>2'' @ crlf))
     = Continue \<lparr>read_buffer = [], commands = [hello, quit], queue = (), stop_writer = False,
         timer_cancels = 0, socket_in = [], receiver = [invalid_command],
         trace = [on_read invalid_command]\<rparr>"
    by (simp add: demo_client_def demo_async_read_def)
  from read_op_push_detection [where cli = "demo_client (''+OK'' @ crlf)" and front = "CHR ''+''"
      and rest = "''OK'' @ crlf" and type_of = to_type and async_read = demo_async_read
      and on_cmd = demo_on_cmd] q
  have b: "read_op_step to_type demo_async_read demo_on_cmd (demo_client (''+OK'' @ crlf))
     = Continue \<lparr>read_buffer = [], commands = [quit], queue = (), stop_writer = False,
         timer_cancels = 1, socket_in = [], receiver = [hello],
         trace = [on_read hello]\<rparr>"
    by (simp add: demo_client_def demo_async_read_def demo_on_cmd_def)
  from a b show ?thesis by simp
qed

section \<open>Properties of the exec operation\<close>







section \<open>Properties of the ignore adapter\<close>




section \<open>Properties of endpoints\<close>

text \<open>
  Claim C9. \<open>requires_auth\<close> holds exactly when both the username and the password are
  non-empty, so an endpoint with only one of the two set (whatever the other fields are) does
  not require authentication; \<open>is_valid\<close> holds exactly when both host and port are
  non-empty.
\<close>

theorem endpoint_classification:
  "requires_auth ep = (username ep \<noteq> [] \<and> password ep \<noteq> [])
   \<and> (username ep = [] \<or> password ep = [] \<longrightarrow> \<not> requires_auth ep)
   \<and> \<not> requires_auth (ep\<lparr>username := u, password := []\<rparr>)
   \<and> \<not> requires_auth (ep\<lparr>username := [], password := pw\<rparr>)
   \<and> is_valid ep = (host ep \<noteq> [] \<and> port ep \<noteq> [])"
  by (simp add: requires_auth_def is_valid_def)

theorem endpoint_classification_witness:
  "\<not> requires_auth \<lparr>host = ''127.0.0.1'', port = ''6379'', role = [],
       username = ''default'', password = []\<rparr>
   \<and> is_valid \<lparr>host = ''127.0.0.1'', port = ''6379'', role = [],
       username = ''default'', password = []\<rparr>
   \<and> requires_auth \<lparr>host = ''127.0.0.1'', port = ''6379'', role = [],
       username = ''default'', password = ''secret''\<rparr>
   \<and> \<not> is_valid \<lparr>host = ''127.0.0.1'', port = [], role = [],
       username = ''default'', password = ''secret''\<rparr>"
  using endpoint_classification [of "\<lparr>host = ''127.0.0.1'', port = ''6379'', role = [],
       username = ''default'', password = []\<rparr>"]
    endpoint_classification [of "\<lparr>host = ''127.0.0.1'', port = ''6379'', role = [],
       username = ''default'', password = ''secret''\<rparr>"]
    endpoint_classification [of "\<lparr>host = ''127.0.0.1'', port = [], role = [],
       username = ''default'', password = ''secret''\<rparr>"]
  by simp

section \<open>Properties of the timed exec operation\<close>

text \<open>
  Claim C7, as stated: whenever the timer completes first without error the operation completes
  with \<open>exec_timeout\<close> and zero bytes, and whenever the exec completes first its error and
  byte count are forwarded unchanged. The cancellation check that precedes the switch makes
  both fail: on a cancelled operation the completion is \<open>operation_aborted\<close> with zero
  bytes, whichever of the two finished first.
\<close>

theorem exec_with_timeout_cancelled_counterexample:
  "exec_with_timeout_op True 1 None 0 None \<noteq> Some (Some exec_timeout, 0)
   \<and> exec_with_timeout_op True 0 None 7 None \<noteq> Some (None, 7)
   \<and> exec_with_timeout_op True 1 None 0 None = Some (Some operation_aborted, 0)
   \<and> exec_with_timeout_op True 0 None 7 None = Some (Some operation_aborted, 0)"
  by (simp add: exec_with_timeout_op_def)

text \<open>
  Claim C7, amended. On an operation that has not been cancelled: when the timer completes
  first, the operation completes with \<open>exec_timeout\<close> and zero bytes if the wait succeeded
  and with the timer's own error and zero bytes if the wait failed; when the exec completes
  first its error and byte count are forwarded unchanged. On a cancelled operation the
  completion is \<open>operation_aborted\<close> with zero bytes.
\<close>

theorem exec_with_timeout_completion:
  "(\<not> cancelled \<longrightarrow>
      exec_with_timeout_op cancelled 1 ec1 n None = Some (Some exec_timeout, 0)
      \<and> (ec2 \<noteq> None \<longrightarrow> exec_with_timeout_op cancelled 1 ec1 n ec2 = Some (ec2, 0))
      \<and> exec_with_timeout_op cancelled 0 ec1 n ec2 = Some (ec1, n))
   \<and> (cancelled \<longrightarrow>
      exec_with_timeout_op cancelled order0 ec1 n ec2 = Some (Some operation_aborted, 0))"
  by (simp add: exec_with_timeout_op_def)

theorem exec_with_timeout_completion_witness:
  "exec_with_timeout_op False 1 (Some eof) 5 None = Some (Some exec_timeout, 0)
   \<and> exec_with_timeout_op False 1 (Some eof) 5 (Some operation_aborted)
       = Some (Some operation_aborted, 0)
   \<and> exec_with_timeout_op False 0 (Some eof) 5 (Some operation_aborted) = Some (Some eof, 5)
   \<and> exec_with_timeout_op True 0 None 5 None = Some (Some operation_aborted, 0)"
  using exec_with_timeout_completion [of False "Some eof" 5 "Some operation_aborted" 0]
    exec_with_timeout_completion [of True None 5 None 0]
  by simp

end
